theory Spec2Isabelle
  imports Complex_Main
begin

section \<open>Values, persistence and numbers\<close>

text \<open>
  The plugin \<open>MoveMembersWrap\<close> (file \<open>MemberListMover.plugin.js\<close>) is embedded as state
  passing over one record that holds the instance fields, the parts of the browser the
  code talks to (timers, animation frames, listeners, the persisted data of \<open>BdApi\<close>) and
  the nodes of the document the code reads and writes.

  JavaScript numbers are modelled as exact reals: \<open>NaN\<close>, infinities and the rounding of
  double arithmetic are outside the model.
\<close>

datatype js_value =
    JUndefined
  | JNull
  | JBool bool
  | JNum real
  | JStr string
  | JObj "(string \<times> real) list"

text \<open>The truthiness test of \<open>if (v)\<close> and \<open>!v\<close>.\<close>

fun truthy :: "js_value \<Rightarrow> bool" where
  "truthy JUndefined = False"
| "truthy JNull = False"
| "truthy (JBool b) = b"
| "truthy (JNum x) = (x \<noteq> 0)"
| "truthy (JStr s) = (s \<noteq> [])"
| "truthy (JObj fs) = True"

text \<open>
  The conversion to a string that a template literal \<open>`${v}`\<close> performs. It succeeds on
  every primitive value. On an object it calls the method \<open>toString\<close>; an own
  property of that name hides the inherited method, and, the values of persisted data
  never being functions, the conversion then falls back on \<open>valueOf\<close>, which returns the
  object itself, and ends in a \<open>TypeError\<close>.
\<close>

fun toStringThrows :: "js_value \<Rightarrow> bool" where
  "toStringThrows (JObj fs) = (''toString'' \<in> set (map fst fs))"
| "toStringThrows v = False"

type_synonym bd_storage = "string \<times> string \<Rightarrow> js_value option"

definition loadData :: "bd_storage \<Rightarrow> string \<Rightarrow> string \<Rightarrow> js_value" where
  "loadData st pid k = (case st (pid, k) of None \<Rightarrow> JNull | Some v \<Rightarrow> v)"

definition saveData :: "bd_storage \<Rightarrow> string \<Rightarrow> string \<Rightarrow> js_value \<Rightarrow> bd_storage" where
  "saveData st pid k v = st((pid, k) \<mapsto> v)"

text \<open>The constants the constructor assigns and nothing changes afterwards.\<close>

definition pluginId :: string where "pluginId = ''MemberListMover''"
definition dataKey :: string where "dataKey = ''isMovedState''"
definition heightsDataKey :: string where "heightsDataKey = ''listHeights''"

definition RESIZE_HANDLE_HEIGHT :: real where "RESIZE_HANDLE_HEIGHT = 16"
definition BUTTON_WRAPPER_HEIGHT :: real where "BUTTON_WRAPPER_HEIGHT = 8"
definition OUR_UI_HEIGHT_PX :: real where
  "OUR_UI_HEIGHT_PX = RESIZE_HANDLE_HEIGHT + BUTTON_WRAPPER_HEIGHT"
definition MIN_HEIGHT_PERCENTAGE :: real where "MIN_HEIGHT_PERCENTAGE = 0.05"
definition reapplyThrottleDelay :: nat where "reapplyThrottleDelay = 100"
definition ABSENCE_CHECK_DELAY_MS :: nat where "ABSENCE_CHECK_DELAY_MS = 150"
definition FAILSALE_INTERVAL_MS :: nat where "FAILSALE_INTERVAL_MS = 2000"

text \<open>
  \<open>parseFloat(x.toFixed(3))\<close>: the multiple of \<open>1/1000\<close> nearest to \<open>x\<close>; of two equally
  near ones \<open>toFixed\<close> takes the larger in magnitude.
\<close>

definition toFixed3 :: "real \<Rightarrow> real" where
  "toFixed3 x =
     (if x < 0 then - (of_int \<lfloor>- x * 1000 + 1 / 2\<rfloor>) / 1000
      else of_int \<lfloor>x * 1000 + 1 / 2\<rfloor> / 1000)"

section \<open>The document\<close>

datatype node =
    MembersWrap
  | MembersListContainer
  | SidebarList
  | SidebarNav
  | UserIDSection
  | ResizeHandle
  | HandleIndicator
  | WrapperDiv
  | SubContainerDiv
  | Button

text \<open>
  A value of an inline style property: \<open>Px x\<close> is the string the template \<open>`${x}px`\<close>
  builds, \<open>Lit\<close> any other string.
\<close>

datatype css = Px real | Lit string

text \<open>Where a control-surface node hangs.\<close>

datatype place = Detached | InMembersWrap | InMembersListContainer | Elsewhere

record rect =
  rtop :: real
  rleft :: real
  rwidth :: real
  rbottom :: real

text \<open>
  \<open>hasNode\<close> tells which nodes of the host are in the document; \<open>MembersListContainer\<close>
  is the descendant of \<open>MembersWrap\<close> that \<open>[class*="members"]\<close> selects, \<open>SidebarNav\<close>
  the \<open>nav\<close> inside \<open>SidebarList\<close>, \<open>UserIDSection\<close> the \<open>section\<close> sibling after it.
  At most one node of each kind exists.
\<close>

record dom =
  hasNode :: "node \<Rightarrow> bool"
  styles :: "node \<Rightarrow> string \<Rightarrow> css option"
  elemId :: "node \<Rightarrow> string"
  parentOf :: "node \<Rightarrow> place"
  textContent :: "node \<Rightarrow> string"

definition setProperty :: "node \<Rightarrow> string \<Rightarrow> css \<Rightarrow> dom \<Rightarrow> dom" where
  "setProperty n p v d = d\<lparr>styles := (styles d)(n := (styles d n)(p \<mapsto> v))\<rparr>"

definition removeProperty :: "node \<Rightarrow> string \<Rightarrow> dom \<Rightarrow> dom" where
  "removeProperty n p d = d\<lparr>styles := (styles d)(n := (styles d n)(p := None))\<rparr>"

definition setCssText :: "node \<Rightarrow> (string \<times> css) list \<Rightarrow> dom \<Rightarrow> dom" where
  "setCssText n ps d = d\<lparr>styles := (styles d)(n := map_of ps)\<rparr>"

text \<open>The selector queries of the source, as the node found or \<open>None\<close>.\<close>

definition query_membersWrap :: "dom \<Rightarrow> node option" where
  "query_membersWrap d = (if hasNode d MembersWrap then Some MembersWrap else None)"

definition query_sidebarList :: "dom \<Rightarrow> node option" where
  "query_sidebarList d = (if hasNode d SidebarList then Some SidebarList else None)"

definition query_userIDSection :: "dom \<Rightarrow> node option" where
  "query_userIDSection d =
     (if hasNode d SidebarList \<and> hasNode d UserIDSection then Some UserIDSection else None)"

definition query_sidebarNav :: "dom \<Rightarrow> node \<Rightarrow> node option" where
  "query_sidebarNav d sidebarList =
     (if sidebarList = SidebarList \<and> hasNode d SidebarNav then Some SidebarNav else None)"

definition query_members_in :: "dom \<Rightarrow> node \<Rightarrow> node option" where
  "query_members_in d membersWrap =
     (if membersWrap = MembersWrap \<and> hasNode d MembersListContainer
      then Some MembersListContainer else None)"

definition query_bd_members_list_container :: "dom \<Rightarrow> node option" where
  "query_bd_members_list_container d =
     (if hasNode d MembersWrap \<and> hasNode d MembersListContainer
         \<and> elemId d MembersListContainer = ''bd-members-list-container''
      then Some MembersListContainer else None)"

definition contains :: "dom \<Rightarrow> node \<Rightarrow> node \<Rightarrow> bool" where
  "contains d outer n =
     (if outer = MembersWrap then parentOf d n = InMembersWrap \<or> parentOf d n = InMembersListContainer
      else if outer = MembersListContainer then parentOf d n = InMembersListContainer
      else False)"

text \<open>
  The host's layout engine: \<open>getBoundingClientRect\<close> of a node in a document. Any call
  into the host may throw (\<open>HostError\<close>); \<open>TypeError\<close> is the exception the language
  itself throws.
\<close>

datatype exn = HostError string | TypeError string

type_synonym host = "node \<Rightarrow> dom \<Rightarrow> exn + rect"

section \<open>The state\<close>

datatype timeout_kind = ThrottleCooldown | AbsenceCheck

text \<open>
  The fields of \<open>this\<close> come first, then the browser: the listeners of \<open>window\<close> and its
  flag \<open>bdResizeListenerAdded\<close>, the pending animation frames, time-outs (handle, callback,
  due time), intervals and connected observers, the next handle the browser hands out,
  the clock, the data of \<open>BdApi\<close> and the document. Handles are positive, so a handle that
  is present is truthy. \<open>passCount\<close> counts the entries into \<open>applyCurrentLayoutState\<close>,
  \<open>sidebarResets\<close> those into \<open>_resetSidebarListStyles\<close> from any caller and
  \<open>absenceReleases\<close> those from the callback of the absence time-out alone, \<open>uncaught\<close>
  collects what a callback threw, \<open>errorConsole\<close> what \<open>_error\<close> prints. The write-only
  field \<open>lastLayoutApplyTimestamp\<close> and the output of \<open>_log\<close> and \<open>_warn\<close> are left out.
\<close>

record state =
  observer :: "nat option"
  button :: bool
  wrapperDiv :: bool
  subContainerDiv :: bool
  resizeHandle :: bool
  handleIndicator :: bool
  isMoved :: js_value
  animationFrameId :: "nat option"
  failsafeIntervalId :: "nat option"
  sidebarHeightPercentage :: real
  membersHeightPercentage :: real
  isDragging :: bool
  initialMouseY :: real
  initialSidebarHeightPercentage :: real
  initialMembersHeightPercentage :: real
  reapplyTimeout :: "nat option"
  isThrottling :: bool
  pendingThrottleCall :: bool
  memberListAbsenceTimer :: "nat option"
  masterLogs :: bool
  consoleErrors :: bool
  bdResizeListenerAdded :: bool
  resizeListener :: bool
  mousemoveListener :: bool
  mouseupListener :: bool
  frames :: "nat list"
  timeouts :: "(nat \<times> timeout_kind \<times> nat) list"
  intervals :: "nat list"
  observers :: "nat list"
  nextHandle :: nat
  now :: nat
  storage :: bd_storage
  doc :: dom
  passCount :: nat
  sidebarResets :: nat
  absenceReleases :: nat
  uncaught :: "exn list"
  errorConsole :: "string list"

subsection \<open>Timers and frames of the browser\<close>

definition requestAnimationFrame :: "state \<Rightarrow> nat \<times> state" where
  "requestAnimationFrame s =
     (nextHandle s, s\<lparr>frames := frames s @ [nextHandle s], nextHandle := nextHandle s + 1\<rparr>)"

definition cancelAnimationFrame :: "nat \<Rightarrow> state \<Rightarrow> state" where
  "cancelAnimationFrame i s = s\<lparr>frames := filter (\<lambda>j. j \<noteq> i) (frames s)\<rparr>"

definition setTimeout :: "timeout_kind \<Rightarrow> nat \<Rightarrow> state \<Rightarrow> nat \<times> state" where
  "setTimeout k delay s =
     (nextHandle s,
      s\<lparr>timeouts := timeouts s @ [(nextHandle s, k, now s + delay)],
        nextHandle := nextHandle s + 1\<rparr>)"

definition clearTimeout :: "nat \<Rightarrow> state \<Rightarrow> state" where
  "clearTimeout i s = s\<lparr>timeouts := filter (\<lambda>t. fst t \<noteq> i) (timeouts s)\<rparr>"

definition setInterval :: "state \<Rightarrow> nat \<times> state" where
  "setInterval s =
     (nextHandle s, s\<lparr>intervals := intervals s @ [nextHandle s], nextHandle := nextHandle s + 1\<rparr>)"

definition clearInterval :: "nat \<Rightarrow> state \<Rightarrow> state" where
  "clearInterval i s = s\<lparr>intervals := filter (\<lambda>j. j \<noteq> i) (intervals s)\<rparr>"

section \<open>The reapply scheduler\<close>

definition queueLayoutReapply :: "state \<Rightarrow> state" where
  "queueLayoutReapply s =
     (let s1 = (case animationFrameId s of
                  Some i \<Rightarrow> (cancelAnimationFrame i s)\<lparr>animationFrameId := None\<rparr>
                | None \<Rightarrow> s)
      in if isThrottling s1 then s1\<lparr>pendingThrottleCall := True\<rparr>
         else
           let s2 = s1\<lparr>isThrottling := True, pendingThrottleCall := False\<rparr>;
               (f, s3) = requestAnimationFrame s2;
               s4 = s3\<lparr>animationFrameId := Some f\<rparr>;
               (t, s5) = setTimeout ThrottleCooldown reapplyThrottleDelay s4
           in s5\<lparr>reapplyTimeout := Some t\<rparr>)"

text \<open>The callback of the cool-down time-out that \<open>queueLayoutReapply\<close> sets.\<close>

definition cooldownCallback :: "state \<Rightarrow> state" where
  "cooldownCallback s =
     (let s1 = s\<lparr>isThrottling := False, reapplyTimeout := None\<rparr>
      in if pendingThrottleCall s1
         then queueLayoutReapply (s1\<lparr>pendingThrottleCall := False\<rparr>)
         else s1)"

section \<open>The drag controller\<close>

definition clampPercentage :: "real \<Rightarrow> real" where
  "clampPercentage p = max MIN_HEIGHT_PERCENTAGE (min (1 - MIN_HEIGHT_PERCENTAGE) p)"

text \<open>The pair \<open>onMouseMove\<close> computes from the pointer, before it is stored.\<close>

definition dragPercentages :: "real \<Rightarrow> real \<Rightarrow> real \<Rightarrow> real \<times> real" where
  "dragPercentages clientY sidebarTop totalAvailableHeightForPanels =
     (let newSidebarHeightPx = clientY - sidebarTop;
          newSidebarPercentage0 = newSidebarHeightPx / totalAvailableHeightForPanels;
          newMembersPercentage0 = 1.0 - newSidebarPercentage0;
          newSidebarPercentage1 = clampPercentage newSidebarPercentage0;
          newMembersPercentage1 = clampPercentage newMembersPercentage0;
          sum = newSidebarPercentage1 + newMembersPercentage1;
          (newSidebarPercentage, newMembersPercentage) =
             (if \<bar>sum - 1.0\<bar> > 0.001
              then (newSidebarPercentage1 - (sum - 1.0) / 2, newMembersPercentage1 - (sum - 1.0) / 2)
              else (newSidebarPercentage1, newMembersPercentage1))
      in (toFixed3 newSidebarPercentage, toFixed3 newMembersPercentage))"

definition onMouseMove :: "host \<Rightarrow> real \<Rightarrow> state \<Rightarrow> exn option \<times> state" where
  "onMouseMove H clientY s =
     (if \<not> isDragging s then (None, s)
      else case (query_sidebarList (doc s), query_userIDSection (doc s)) of
        (Some sidebarList, Some userIDSection) \<Rightarrow>
          (case H sidebarList (doc s) of
             Inl e \<Rightarrow> (Some e, s)
           | Inr sidebarListRect \<Rightarrow>
          (case H userIDSection (doc s) of
             Inl e \<Rightarrow> (Some e, s)
           | Inr userIDSectionRect \<Rightarrow>
             let totalAvailableHeightForPanels = rtop userIDSectionRect - rtop sidebarListRect
             in if totalAvailableHeightForPanels \<le> 0 then (None, s)
                else
                  let (p, q) = dragPercentages clientY (rtop sidebarListRect)
                                 totalAvailableHeightForPanels;
                      s1 = s\<lparr>sidebarHeightPercentage := p, membersHeightPercentage := q\<rparr>;
                      s2 = queueLayoutReapply s1
                  in (None,
                      s2\<lparr>storage := saveData (storage s2) pluginId dataKey
                            (JObj [(''sidebar'', sidebarHeightPercentage s2),
                                   (''members'', membersHeightPercentage s2)])\<rparr>)))
      | _ \<Rightarrow> (None, s))"

definition onMouseUp :: "state \<Rightarrow> state" where
  "onMouseUp s = s\<lparr>isDragging := False, mousemoveListener := False, mouseupListener := False\<rparr>"


section \<open>Styling\<close>

text \<open>\<open>_resetSidebarListStyles\<close>, the release of the sizing of the sidebar list.\<close>

definition resetSidebarListStyles :: "state \<Rightarrow> state" where
  "resetSidebarListStyles s =
     (let s0 = s\<lparr>sidebarResets := sidebarResets s + 1\<rparr>
      in case query_sidebarList (doc s0) of
           None \<Rightarrow> s0
         | Some sidebarList \<Rightarrow>
             let d1 = removeProperty sidebarList ''height'' (doc s0);
                 d2 = removeProperty sidebarList ''padding-bottom'' d1;
                 d3 = (case query_sidebarNav d2 sidebarList of
                         Some sidebarNav \<Rightarrow> removeProperty sidebarNav ''padding-bottom'' d2
                       | None \<Rightarrow> d2)
             in s0\<lparr>doc := d3\<rparr>)"

definition setTextContent :: "node \<Rightarrow> string \<Rightarrow> dom \<Rightarrow> dom" where
  "setTextContent n t d = d\<lparr>textContent := (textContent d)(n := t)\<rparr>"

definition updateButtonVisualState :: "bool \<Rightarrow> bool \<Rightarrow> bool \<Rightarrow> bool \<Rightarrow> state \<Rightarrow> state" where
  "updateButtonVisualState buttonElement wrapperElement subContainerElement isMovedState s =
     (if \<not> buttonElement \<or> \<not> wrapperElement \<or> \<not> subContainerElement
         \<or> \<not> resizeHandle s \<or> \<not> handleIndicator s
      then s
      else if isMovedState then
        s\<lparr>doc := setProperty WrapperDiv ''background-color'' (Lit ''#ED4245'')
                 (setProperty Button ''background-color'' (Lit ''#ED4245'')
                   (setTextContent Button ''Reset Layout'' (doc s)))\<rparr>
      else
        s\<lparr>doc := setProperty WrapperDiv ''background-color'' (Lit ''#5865F2'')
                 (setProperty Button ''background-color'' (Lit ''#5865F2'')
                   (setTextContent Button ''Move'' (doc s)))\<rparr>)"

text \<open>The properties \<open>applyOriginalLayoutStyles\<close> removes, in its order.\<close>

definition membersWrapProperties :: "string list" where
  "membersWrapProperties =
     [''position'', ''width'', ''height'', ''left'', ''top'', ''transform'',
      ''min-width'', ''flex-direction'', ''display'', ''z-index'']"

definition membersListContainerProperties :: "string list" where
  "membersListContainerProperties = [''height'', ''width'', ''overflow-y'']"

text \<open>
  The steps of \<open>applyOriginalLayoutStyles\<close>: removing a list of properties from a node
  that was found, and the reset of the button at its end.
\<close>

definition removeProperties :: "node option \<Rightarrow> string list \<Rightarrow> state \<Rightarrow> state" where
  "removeProperties found ps s =
     (case found of
        Some n \<Rightarrow> s\<lparr>doc := fold (removeProperty n) ps (doc s)\<rparr>
      | None \<Rightarrow> s)"

definition resetButtonState :: "state \<Rightarrow> state" where
  "resetButtonState s =
     (if wrapperDiv s \<and> subContainerDiv s \<and> button s
      then updateButtonVisualState (button s) (wrapperDiv s) (subContainerDiv s) False
             (s\<lparr>isMoved := JBool False\<rparr>)
      else s)"

definition applyOriginalLayoutStyles :: "state \<Rightarrow> state" where
  "applyOriginalLayoutStyles s =
     (let membersWrap = query_membersWrap (doc s);
          sidebarList = query_sidebarList (doc s);
          membersListContainer = query_bd_members_list_container (doc s)
      in resetButtonState
           (removeProperties membersListContainer membersListContainerProperties
             ((case sidebarList of Some l \<Rightarrow> resetSidebarListStyles | None \<Rightarrow> id)
               (removeProperties membersWrap membersWrapProperties s))))"

definition applyMovedLayoutStyles ::
    "node \<Rightarrow> node \<Rightarrow> node option \<Rightarrow> real \<Rightarrow> real \<Rightarrow> rect \<Rightarrow> dom \<Rightarrow> dom" where
  "applyMovedLayoutStyles membersWrap sidebarList membersListContainer
       calculatedSidebarHeight calculatedMembersTotalHeight sidebarListRect d =
     (let remainingHeightForDiscordContent = calculatedMembersTotalHeight - OUR_UI_HEIGHT_PX;
          d1 = setProperty membersWrap ''position'' (Lit ''fixed'') d;
          d2 = setProperty membersWrap ''width'' (Px (rwidth sidebarListRect)) d1;
          d3 = setProperty membersWrap ''height'' (Px calculatedMembersTotalHeight) d2;
          d4 = setProperty membersWrap ''left'' (Px (rleft sidebarListRect)) d3;
          d5 = setProperty membersWrap ''top'' (Px (rbottom sidebarListRect)) d4;
          d6 = setProperty membersWrap ''transform'' (Lit ''translateX(0%)'') d5;
          d7 = removeProperty membersWrap ''z-index'' d6;
          d8 = setProperty membersWrap ''min-width'' (Lit ''unset'') d7;
          d9 = setProperty membersWrap ''display'' (Lit ''flex'') d8;
          d10 = setProperty membersWrap ''flex-direction'' (Lit ''column'') d9;
          d11 = setProperty sidebarList ''height'' (Px calculatedSidebarHeight) d10;
          d12 = setProperty sidebarList ''padding-bottom'' (Px 0) d11;
          d13 = (case query_sidebarNav d12 sidebarList of
                   Some sidebarNav \<Rightarrow> setProperty sidebarNav ''padding-bottom'' (Px 0) d12
                 | None \<Rightarrow> d12)
      in case membersListContainer of
           Some c \<Rightarrow>
             setProperty c ''overflow-y'' (Lit ''auto'')
               (setProperty c ''width'' (Lit ''100%'')
                 (setProperty c ''height'' (Px (max 0 remainingHeightForDiscordContent)) d13))
         | None \<Rightarrow> d13)"

section \<open>The control surface\<close>

definition setElemId :: "node \<Rightarrow> string \<Rightarrow> dom \<Rightarrow> dom" where
  "setElemId n i d = d\<lparr>elemId := (elemId d)(n := i)\<rparr>"

definition setParent :: "node \<Rightarrow> place \<Rightarrow> dom \<Rightarrow> dom" where
  "setParent n p d = d\<lparr>parentOf := (parentOf d)(n := p)\<rparr>"

text \<open>
  \<open>addMoveButton\<close> creates the nodes in memory, in two steps: the resize handle with its
  indicator (\<open>ensureResizeHandle\<close>), then the button wrapper with its sub-container and
  button (\<open>ensureButtonWrapper\<close>). The handlers it attaches are the functions
  \<open>onmousedown\<close> and \<open>onclick\<close> below; the hover handlers are left out. The children of a
  control-surface node are taken to stay inside it.
\<close>

text \<open>The declarations of the \<open>cssText\<close> the five nodes are created with.\<close>

definition resizeHandleCss :: "(string \<times> css) list" where
  "resizeHandleCss =
     [(''width'', Lit ''100%''), (''height'', Px 8),
      (''margin'', Lit ''2px 0px 6px''), (''cursor'', Lit ''ns-resize''),
      (''align-items'', Lit ''center''), (''justify-content'', Lit ''center''),
      (''border-radius'', Px 5)]"

definition handleIndicatorCss :: "(string \<times> css) list" where
  "handleIndicatorCss =
     [(''width'', Lit ''100%''), (''height'', Px 4), (''margin'', Lit ''0 5px''),
      (''background-color'', Lit ''var(--bg-brand)''),
      (''border-radius'', Px 2), (''opacity'', Lit ''0.25''),
      (''transition'', Lit ''opacity 0.2s ease'')]"

definition wrapperDivCss :: "(string \<times> css) list" where
  "wrapperDivCss =
     [(''position'', Lit ''relative''), (''height'', Px 6),
      (''margin'', Lit ''2px 10px''), (''background-color'', Lit ''#5865F2''),
      (''border-radius'', Px 3),
      (''transition'', Lit ''background-color 0.2s ease''),
      (''overflow'', Lit ''visible''), (''display'', Lit ''flex''),
      (''align-items'', Lit ''center''), (''justify-content'', Lit ''center''),
      (''z-index'', Lit ''1''), (''cursor'', Lit ''pointer''),
      (''min-width'', Px 10)]"

definition subContainerDivCss :: "(string \<times> css) list" where
  "subContainerDivCss =
     [(''position'', Lit ''absolute''), (''top'', Lit ''0''), (''left'', Lit ''0''),
      (''width'', Lit ''100%''), (''max-height'', Lit ''0''),
      (''overflow'', Lit ''hidden''),
      (''transition'', Lit ''max-height 0.25s ease'')]"

definition buttonCss :: "(string \<times> css) list" where
  "buttonCss =
     [(''position'', Lit ''relative''), (''top'', Px 0), (''width'', Lit ''100%''),
      (''background-color'', Lit ''#5865F2''), (''color'', Lit ''white''),
      (''border'', Lit ''none''), (''padding'', Lit ''8px 12px''),
      (''border-radius'', Px 5), (''cursor'', Lit ''pointer''),
      (''font-size'', Px 14), (''text-align'', Lit ''center''),
      (''box-shadow'', Lit ''0 2px 4px rgba(0,0,0,0.2)'')]"

definition ensureResizeHandle :: "state \<Rightarrow> state" where
  "ensureResizeHandle s =
     (if \<not> resizeHandle s then
        s\<lparr>resizeHandle := True, handleIndicator := True,
          doc := setCssText HandleIndicator handleIndicatorCss
                   (setCssText ResizeHandle resizeHandleCss
                     (setParent ResizeHandle Detached
                       (setElemId ResizeHandle ''bd-resize-handle'' (doc s))))\<rparr>
      else s\<lparr>handleIndicator := True\<rparr>)"

definition ensureButtonWrapper :: "state \<Rightarrow> state" where
  "ensureButtonWrapper s =
     (if \<not> wrapperDiv s then
        s\<lparr>wrapperDiv := True, subContainerDiv := True, button := True,
          doc := setCssText Button buttonCss
                   (setTextContent Button ''Move''
                     (setElemId Button ''bd-move-members-button''
                       (setCssText SubContainerDiv subContainerDivCss
                         (setElemId SubContainerDiv ''bd-move-button-sub-wrapper''
                           (setCssText WrapperDiv wrapperDivCss
                             (setParent WrapperDiv Detached
                               (setElemId WrapperDiv ''bd-move-button-wrapper'' (doc s))))))))\<rparr>
      else s\<lparr>subContainerDiv := True, button := True\<rparr>)"

text \<open>The id both \<open>addMoveButton\<close> and the pass give to the inner content.\<close>

definition tagContainer :: "node option \<Rightarrow> state \<Rightarrow> state" where
  "tagContainer membersListContainer s =
     (case membersListContainer of
        Some c \<Rightarrow> s\<lparr>doc := setElemId c ''bd-members-list-container'' (doc s)\<rparr>
      | None \<Rightarrow> s)"

definition addMoveButton :: "state \<Rightarrow> state" where
  "addMoveButton s =
     (case query_membersWrap (doc s) of
        None \<Rightarrow> s
      | Some membersWrap \<Rightarrow>
          ensureButtonWrapper
            (ensureResizeHandle (tagContainer (query_members_in (doc s) membersWrap) s)))"

section \<open>The reconciliation pass\<close>

text \<open>
  The steps both branches of \<open>applyCurrentLayoutState\<close> are made of: a control-surface
  node is put into the container and shown, or taken out of the document; the resize
  listener is added or removed under the guard \<open>window.bdResizeListenerAdded\<close>; the button
  is redrawn at the end.
\<close>

definition attachToMembersWrap :: "node \<Rightarrow> node \<Rightarrow> dom \<Rightarrow> dom" where
  "attachToMembersWrap membersWrap n d =
     setProperty n ''display'' (Lit ''flex'')
       (if \<not> contains d membersWrap n then setParent n InMembersWrap d else d)"

definition placeControlsMoved :: "node \<Rightarrow> state \<Rightarrow> state" where
  "placeControlsMoved membersWrap s =
     s\<lparr>doc := (if wrapperDiv s then attachToMembersWrap membersWrap WrapperDiv else id)
                ((if resizeHandle s then attachToMembersWrap membersWrap ResizeHandle else id)
                  (doc s))\<rparr>"

definition addResizeListener :: "state \<Rightarrow> state" where
  "addResizeListener s =
     (if \<not> bdResizeListenerAdded s
      then s\<lparr>resizeListener := True, bdResizeListenerAdded := True\<rparr>
      else s)"

definition removeResizeListener :: "state \<Rightarrow> state" where
  "removeResizeListener s =
     (if bdResizeListenerAdded s
      then s\<lparr>resizeListener := False, bdResizeListenerAdded := False\<rparr>
      else s)"

definition refreshButton :: "state \<Rightarrow> state" where
  "refreshButton s =
     updateButtonVisualState (button s) (wrapperDiv s) (subContainerDiv s) (truthy (isMoved s)) s"

definition hideResizeHandle :: "state \<Rightarrow> state" where
  "hideResizeHandle s =
     (if resizeHandle s then
        s\<lparr>doc := setProperty ResizeHandle ''display'' (Lit ''none'')
                  (if parentOf (doc s) ResizeHandle \<noteq> Detached
                   then setParent ResizeHandle Detached (doc s) else doc s)\<rparr>
      else s)"

definition placeWrapperOriginal :: "node option \<Rightarrow> state \<Rightarrow> state" where
  "placeWrapperOriginal membersListContainer s =
     (case membersListContainer of
        Some c \<Rightarrow>
          if wrapperDiv s then
            s\<lparr>doc := setProperty WrapperDiv ''display'' (Lit ''flex'')
                      (if \<not> contains (doc s) c WrapperDiv
                       then setParent WrapperDiv InMembersListContainer (doc s)
                       else doc s)\<rparr>
          else s
      | None \<Rightarrow>
          if wrapperDiv s \<and> parentOf (doc s) WrapperDiv \<noteq> Detached then
            s\<lparr>doc := setProperty WrapperDiv ''display'' (Lit ''none'')
                      (setParent WrapperDiv Detached (doc s))\<rparr>
          else s)"

text \<open>The branch of \<open>applyCurrentLayoutState\<close> taken when \<open>this.isMoved\<close> is truthy.\<close>

definition movedLayoutPass :: "host \<Rightarrow> node \<Rightarrow> node \<Rightarrow> node \<Rightarrow> node option \<Rightarrow> state \<Rightarrow> exn option \<times> state" where
  "movedLayoutPass H membersWrap sidebarList userIDSection membersListContainer s =
     (case H sidebarList (doc s) of
        Inl e \<Rightarrow> (Some e, s)
      | Inr sidebarListRect0 \<Rightarrow>
     (case H userIDSection (doc s) of
        Inl e \<Rightarrow> (Some e, s)
      | Inr userIDSectionRect \<Rightarrow>
        let availableHeightForPanels = rtop userIDSectionRect - rtop sidebarListRect0
        in if availableHeightForPanels \<le> 0 then (None, s)
           else
             let calculatedSidebarHeight = availableHeightForPanels * sidebarHeightPercentage s;
                 calculatedMembersTotalHeight = availableHeightForPanels * membersHeightPercentage s;
                 d1 = setProperty sidebarList ''height'' (Px calculatedSidebarHeight) (doc s)
             in case H sidebarList d1 of
                  Inl e \<Rightarrow> (Some e, s\<lparr>doc := d1\<rparr>)
                | Inr sidebarListRect \<Rightarrow>
                    (None,
                     refreshButton
                       (addResizeListener
                         (placeControlsMoved membersWrap
                           (s\<lparr>doc := applyMovedLayoutStyles membersWrap sidebarList
                                        membersListContainer calculatedSidebarHeight
                                        calculatedMembersTotalHeight sidebarListRect d1\<rparr>))))))"

text \<open>The branch taken when \<open>this.isMoved\<close> is falsy.\<close>

definition originalLayoutPass :: "node option \<Rightarrow> state \<Rightarrow> exn option \<times> state" where
  "originalLayoutPass membersListContainer s =
     (None,
      refreshButton
        (removeResizeListener
          (placeWrapperOriginal membersListContainer
            (hideResizeHandle (applyOriginalLayoutStyles s)))))"

text \<open>
  The body of the \<open>try\<close> block of \<open>applyCurrentLayoutState\<close>: the three nodes are looked
  up, the inner content gets its id (\<open>tagContainer\<close>), the control surface is created if a
  node of it is missing (\<open>ensureControls\<close>), and the branch for the mode runs
  (\<open>layoutForMode\<close>).
\<close>

definition ensureControls :: "state \<Rightarrow> state" where
  "ensureControls s =
     (if \<not> button s \<or> \<not> wrapperDiv s \<or> \<not> resizeHandle s then addMoveButton s else s)"

definition layoutForMode ::
    "host \<Rightarrow> node \<Rightarrow> node \<Rightarrow> node \<Rightarrow> node option \<Rightarrow> state \<Rightarrow> exn option \<times> state" where
  "layoutForMode H membersWrap sidebarList userIDSection membersListContainer s =
     (if truthy (isMoved s)
      then movedLayoutPass H membersWrap sidebarList userIDSection membersListContainer s
      else originalLayoutPass membersListContainer s)"

definition layoutPassBody :: "host \<Rightarrow> state \<Rightarrow> exn option \<times> state" where
  "layoutPassBody H s =
     (case query_membersWrap (doc s) of
        None \<Rightarrow> (None, s)
      | Some membersWrap \<Rightarrow>
     (case query_sidebarList (doc s) of
        None \<Rightarrow> (None, s)
      | Some sidebarList \<Rightarrow>
     (case query_userIDSection (doc s) of
        None \<Rightarrow> (None, s)
      | Some userIDSection \<Rightarrow>
        let membersListContainer = query_members_in (doc s) membersWrap
        in layoutForMode H membersWrap sidebarList userIDSection membersListContainer
             (ensureControls (tagContainer membersListContainer s)))))"

text \<open>\<open>_error\<close> prints only when one of the two switches is on.\<close>

definition error_log :: "string \<Rightarrow> state \<Rightarrow> state" where
  "error_log msg s =
     (if \<not> consoleErrors s \<and> \<not> masterLogs s then s
      else s\<lparr>errorConsole := errorConsole s @ [msg]\<rparr>)"

fun message :: "exn \<Rightarrow> string" where
  "message (HostError m) = m"
| "message (TypeError m) = m"

definition enterPass :: "state \<Rightarrow> state" where
  "enterPass s = s\<lparr>passCount := passCount s + 1\<rparr>"

text \<open>
  \<open>applyCurrentLayoutState\<close>: the body runs inside \<open>try\<close>; the \<open>catch\<close> block reports
  the exception through \<open>_error\<close> and throws it again.
\<close>

definition applyCurrentLayoutState :: "host \<Rightarrow> state \<Rightarrow> exn option \<times> state" where
  "applyCurrentLayoutState H s =
     (case layoutPassBody H (enterPass s) of
        (None, s') \<Rightarrow> (None, s')
      | (Some e, s') \<Rightarrow>
          (Some e, error_log (''CRITICAL ERROR in applyCurrentLayoutState: '' @ message e) s'))"

text \<open>The callback \<open>queueLayoutReapply\<close> hands to \<open>requestAnimationFrame\<close>.\<close>

definition animationFrameCallback :: "host \<Rightarrow> state \<Rightarrow> exn option \<times> state" where
  "animationFrameCallback H s =
     (case applyCurrentLayoutState H s of
        (None, s') \<Rightarrow> (None, s'\<lparr>animationFrameId := None\<rparr>)
      | (Some e, s') \<Rightarrow> (Some e, s'))"

definition handleWindowResize :: "host \<Rightarrow> state \<Rightarrow> exn option \<times> state" where
  "handleWindowResize H s =
     (case (query_membersWrap (doc s), query_sidebarList (doc s), query_userIDSection (doc s)) of
        (Some membersWrap, Some sidebarList, Some userIDSection) \<Rightarrow>
          (case H sidebarList (doc s) of
             Inl e \<Rightarrow> (Some e, s)
           | Inr sidebarListRect0 \<Rightarrow>
          (case H userIDSection (doc s) of
             Inl e \<Rightarrow> (Some e, s)
           | Inr userIDSectionRect \<Rightarrow>
             let availableHeightForPanels = rtop userIDSectionRect - rtop sidebarListRect0
             in if availableHeightForPanels \<le> 0 then (None, s)
                else
                  let calculatedSidebarHeight = availableHeightForPanels * sidebarHeightPercentage s;
                      d1 = setProperty sidebarList ''height'' (Px calculatedSidebarHeight) (doc s);
                      d2 = setProperty sidebarList ''padding-bottom'' (Px 0) d1;
                      d3 = (case query_sidebarNav d2 sidebarList of
                              Some sidebarNav \<Rightarrow> setProperty sidebarNav ''padding-bottom'' (Px 0) d2
                            | None \<Rightarrow> d2)
                  in case H sidebarList d3 of
                       Inl e \<Rightarrow> (Some e, s\<lparr>doc := d3\<rparr>)
                     | Inr sidebarListRect \<Rightarrow> (None, queueLayoutReapply (s\<lparr>doc := d3\<rparr>))))
      | _ \<Rightarrow> (None, s))"


section \<open>The absence handler and the change detector\<close>

definition handleMemberListAbsence :: "state \<Rightarrow> state" where
  "handleMemberListAbsence s =
     (let s1 = (case memberListAbsenceTimer s of
                  Some i \<Rightarrow> (clearTimeout i s)\<lparr>memberListAbsenceTimer := None\<rparr>
                | None \<Rightarrow> s);
          (t, s2) = setTimeout AbsenceCheck ABSENCE_CHECK_DELAY_MS s1
      in s2\<lparr>memberListAbsenceTimer := Some t\<rparr>)"

text \<open>The callback of the time-out that \<open>handleMemberListAbsence\<close> sets.\<close>

definition absenceCallback :: "state \<Rightarrow> state" where
  "absenceCallback s =
     (let s1 = (case query_membersWrap (doc s) of
                  None \<Rightarrow> resetSidebarListStyles (s\<lparr>absenceReleases := absenceReleases s + 1\<rparr>)
                | Some membersWrap \<Rightarrow> queueLayoutReapply s)
      in s1\<lparr>memberListAbsenceTimer := None\<rparr>)"

text \<open>
  A mutation record: a change of the \<open>style\<close> attribute of a target (\<open>None\<close> is a node the
  plugin does not know), or a change of a child list with the nodes it added.
\<close>

datatype mutation = Attributes "node option" | ChildList "node option list"

definition clearAbsenceTimer :: "state \<Rightarrow> state" where
  "clearAbsenceTimer s =
     (case memberListAbsenceTimer s of
        Some i \<Rightarrow> (clearTimeout i s)\<lparr>memberListAbsenceTimer := None\<rparr>
      | None \<Rightarrow> s)"

text \<open>One round of the loop over the mutation records; the flag is \<open>layoutReapplyNeeded\<close>.\<close>

fun observeMutation :: "mutation \<Rightarrow> bool \<times> state \<Rightarrow> bool \<times> state" where
  "observeMutation (Attributes target) (layoutReapplyNeeded, s) =
     (if target = Some MembersWrap then (True, s)
      else if target = Some SidebarList then (True, s)
      else if (target = Some MembersListContainer
                 \<and> elemId (doc s) MembersListContainer = ''bd-members-list-container'')
              \<or> target = Some WrapperDiv \<or> target = Some ResizeHandle
      then (True, s)
      else (layoutReapplyNeeded, s))"
| "observeMutation (ChildList addedNodes) (layoutReapplyNeeded, s) =
     (True, fold (\<lambda>n s'. if n = Some MembersWrap then clearAbsenceTimer s' else s') addedNodes s)"

definition observerCallback :: "mutation list \<Rightarrow> state \<Rightarrow> state" where
  "observerCallback mutationsList s =
     (let (layoutReapplyNeeded, s1) = fold observeMutation mutationsList (False, s);
          s2 = (if layoutReapplyNeeded then queueLayoutReapply s1 else s1)
      in case query_membersWrap (doc s2) of
           None \<Rightarrow> handleMemberListAbsence s2
         | Some currentMembersWrap \<Rightarrow> clearAbsenceTimer s2)"

definition setupObserver :: "state \<Rightarrow> state" where
  "setupObserver s =
     (let s1 = (case observer s of
                  Some ob \<Rightarrow> s\<lparr>observers := filter (\<lambda>j. j \<noteq> ob) (observers s)\<rparr>
                | None \<Rightarrow> s)
      in s1\<lparr>observer := Some (nextHandle s1), observers := observers s1 @ [nextHandle s1],
            nextHandle := nextHandle s1 + 1\<rparr>)"

section \<open>Start, stop and the handlers of the control surface\<close>

text \<open>
  \<open>start()\<close> in its steps: the load of the mode flag (\<open>loadSavedState\<close>); the log line
  about it, whose template literal converts the flag to a string before \<open>_log\<close> is
  called, whatever the switches say, and ends \<open>start()\<close> with a \<open>TypeError\<close> when that
  conversion throws (\<open>savedStateLogThrows\<close>); the load of the pair (\<open>loadSavedHeights\<close>);
  the observer; the first pass; and the audit interval (\<open>startFailsafe\<close>), which is not
  reached when the pass throws.
\<close>

definition loadSavedState :: "state \<Rightarrow> state" where
  "loadSavedState s =
     (let savedState = loadData (storage s) pluginId dataKey
      in if savedState \<noteq> JNull then s\<lparr>isMoved := savedState\<rparr> else s)"

definition savedStateLogThrows :: "state \<Rightarrow> bool" where
  "savedStateLogThrows s =
     (let savedState = loadData (storage s) pluginId dataKey
      in savedState \<noteq> JNull \<and> toStringThrows savedState)"

definition loadSavedHeights :: "state \<Rightarrow> state" where
  "loadSavedHeights s =
     (case loadData (storage s) pluginId heightsDataKey of
        JObj fs \<Rightarrow>
          (case (map_of fs ''sidebar'', map_of fs ''members'') of
             (Some a, Some b) \<Rightarrow>
               s\<lparr>sidebarHeightPercentage := a, membersHeightPercentage := b\<rparr>
           | _ \<Rightarrow> s)
      | _ \<Rightarrow> s)"

definition startFailsafe :: "state \<Rightarrow> state" where
  "startFailsafe s = (let (i, s') = setInterval s in s'\<lparr>failsafeIntervalId := Some i\<rparr>)"

definition start :: "host \<Rightarrow> state \<Rightarrow> exn option \<times> state" where
  "start H s =
     (if savedStateLogThrows s
      then (Some (TypeError ''Cannot convert object to primitive value''), loadSavedState s)
      else case applyCurrentLayoutState H (setupObserver (loadSavedHeights (loadSavedState s))) of
             (Some e, s') \<Rightarrow> (Some e, s')
           | (None, s') \<Rightarrow> (None, startFailsafe s'))"

definition stop :: "state \<Rightarrow> state" where
  "stop s =
     (let s1 = (case observer s of
                  Some ob \<Rightarrow> s\<lparr>observers := filter (\<lambda>j. j \<noteq> ob) (observers s), observer := None\<rparr>
                | None \<Rightarrow> s);
          s2 = (case animationFrameId s1 of
                  Some i \<Rightarrow> (cancelAnimationFrame i s1)\<lparr>animationFrameId := None\<rparr>
                | None \<Rightarrow> s1);
          s3 = (case reapplyTimeout s2 of
                  Some i \<Rightarrow> (clearTimeout i s2)\<lparr>reapplyTimeout := None\<rparr>
                | None \<Rightarrow> s2);
          s4 = (case failsafeIntervalId s3 of
                  Some i \<Rightarrow> (clearInterval i s3)\<lparr>failsafeIntervalId := None\<rparr>
                | None \<Rightarrow> s3);
          s5 = clearAbsenceTimer s4;
          membersWrap = query_membersWrap (doc s5);
          s6 = (case membersWrap of
                  Some w \<Rightarrow>
                    if contains (doc s5) w WrapperDiv
                    then s5\<lparr>doc := setParent WrapperDiv Detached (doc s5),
                            button := False, wrapperDiv := False\<rparr>
                    else s5
                | None \<Rightarrow> s5);
          s7 = (case membersWrap of
                  Some w \<Rightarrow>
                    if contains (doc s6) w ResizeHandle
                    then s6\<lparr>doc := setParent ResizeHandle Detached (doc s6),
                            resizeHandle := False, handleIndicator := False\<rparr>
                    else s6
                | None \<Rightarrow> s6);
          s8 = s7\<lparr>resizeListener := False, bdResizeListenerAdded := False,
                  mousemoveListener := False, mouseupListener := False\<rparr>
      in applyOriginalLayoutStyles s8)"

text \<open>\<open>resizeHandle.onmousedown\<close> and \<open>button.onclick\<close>.\<close>

definition onmousedown :: "real \<Rightarrow> state \<Rightarrow> state" where
  "onmousedown clientY s =
     (if \<not> truthy (isMoved s) then s
      else s\<lparr>isDragging := True, initialMouseY := clientY,
             initialSidebarHeightPercentage := sidebarHeightPercentage s,
             initialMembersHeightPercentage := membersHeightPercentage s,
             mousemoveListener := True, mouseupListener := True\<rparr>)"

definition onclick :: "state \<Rightarrow> state" where
  "onclick s =
     (let s1 = s\<lparr>isMoved := JBool (\<not> truthy (isMoved s))\<rparr>;
          st1 = saveData (storage s1) pluginId dataKey (isMoved s1);
          st2 = saveData st1 pluginId heightsDataKey
                  (JObj [(''sidebar'', sidebarHeightPercentage s1),
                         (''members'', membersHeightPercentage s1)])
      in queueLayoutReapply (s1\<lparr>storage := st2\<rparr>))"

text \<open>The state the constructor builds, in a browser with nothing pending.\<close>

definition constructor :: "dom \<Rightarrow> bd_storage \<Rightarrow> state" where
  "constructor d st =
     \<lparr>observer = None, button = False, wrapperDiv = False, subContainerDiv = False,
      resizeHandle = False, handleIndicator = False, isMoved = JBool False,
      animationFrameId = None, failsafeIntervalId = None,
      sidebarHeightPercentage = 0.5, membersHeightPercentage = 0.5,
      isDragging = False, initialMouseY = 0,
      initialSidebarHeightPercentage = 0, initialMembersHeightPercentage = 0,
      reapplyTimeout = None, isThrottling = False, pendingThrottleCall = False,
      memberListAbsenceTimer = None, masterLogs = False, consoleErrors = False,
      bdResizeListenerAdded = False,
      resizeListener = False, mousemoveListener = False, mouseupListener = False,
      frames = [], timeouts = [], intervals = [], observers = [], nextHandle = 1, now = 0,
      storage = st, doc = d, passCount = 0, sidebarResets = 0,
      absenceReleases = 0, uncaught = [],
      errorConsole = []\<rparr>"

section \<open>The event loop\<close>

datatype event =
    Mutations "mutation list"
  | AnimationFrame
  | TimeoutFires nat
  | MouseDown real
  | MouseMove real
  | MouseUp
  | Click
  | WindowResize

text \<open>What the browser does with the result of a callback: an exception is reported.\<close>

definition settle :: "exn option \<times> state \<Rightarrow> state" where
  "settle r = (case fst r of None \<Rightarrow> snd r | Some e \<Rightarrow> (snd r)\<lparr>uncaught := uncaught (snd r) @ [e]\<rparr>)"

definition fireTimeout :: "nat \<Rightarrow> state \<Rightarrow> state" where
  "fireTimeout i s =
     (case find (\<lambda>t. fst t = i) (timeouts s) of
        None \<Rightarrow> s
      | Some (j, k, due) \<Rightarrow>
          if due \<le> now s then
            (let s1 = s\<lparr>timeouts := filter (\<lambda>t. fst t \<noteq> i) (timeouts s)\<rparr>
             in case k of ThrottleCooldown \<Rightarrow> cooldownCallback s1 | AbsenceCheck \<Rightarrow> absenceCallback s1)
          else s)"

definition runFrames :: "host \<Rightarrow> state \<Rightarrow> state" where
  "runFrames H s =
     fold (\<lambda>f s'. if f \<in> set (frames s')
                   then settle (animationFrameCallback H (s'\<lparr>frames := filter (\<lambda>j. j \<noteq> f) (frames s')\<rparr>))
                   else s')
       (frames s) s"

text \<open>
  One turn of the event loop at a time \<open>t\<close>: the clock moves on, the host has rewritten
  the document as \<open>world t\<close> says, and the event reaches the plugin if the plugin listens.
  A time-out fires no earlier than it is due.
\<close>

definition dispatch :: "host \<Rightarrow> (nat \<Rightarrow> dom \<Rightarrow> dom) \<Rightarrow> state \<Rightarrow> nat \<times> event \<Rightarrow> state" where
  "dispatch H world s te =
     (let t = max (now s) (fst te);
          s0 = s\<lparr>now := t, doc := world t (doc s)\<rparr>
      in case snd te of
           Mutations ms \<Rightarrow>
             (case observer s0 of
                Some ob \<Rightarrow> if ob \<in> set (observers s0) then observerCallback ms s0 else s0
              | None \<Rightarrow> s0)
         | AnimationFrame \<Rightarrow> runFrames H s0
         | TimeoutFires i \<Rightarrow> fireTimeout i s0
         | MouseDown y \<Rightarrow> if resizeHandle s0 then onmousedown y s0 else s0
         | MouseMove y \<Rightarrow> if mousemoveListener s0 then settle (onMouseMove H y s0) else s0
         | MouseUp \<Rightarrow> if mouseupListener s0 then onMouseUp s0 else s0
         | Click \<Rightarrow> if button s0 then onclick s0 else s0
         | WindowResize \<Rightarrow> if resizeListener s0 then settle (handleWindowResize H s0) else s0)"

definition run :: "host \<Rightarrow> (nat \<Rightarrow> dom \<Rightarrow> dom) \<Rightarrow> state \<Rightarrow> (nat \<times> event) list \<Rightarrow> state" where
  "run H world s tes = foldl (dispatch H world) s tes"

section \<open>A sample document\<close>

text \<open>
  All five nodes of the host are present and unstyled. The sidebar list starts at the top
  of the window, is 240 wide and as high as its inline height says (500 without one);
  the section after it starts at 600.
\<close>

definition sampleDoc :: dom where
  "sampleDoc =
     \<lparr>hasNode = (\<lambda>n. n \<in> {MembersWrap, MembersListContainer, SidebarList, SidebarNav, UserIDSection}),
      styles = (\<lambda>n p. None), elemId = (\<lambda>n. []), parentOf = (\<lambda>n. Detached),
      textContent = (\<lambda>n. [])\<rparr>"

definition sampleHost :: host where
  "sampleHost n d =
     (if n = SidebarList then
        Inr \<lparr>rtop = 0, rleft = 0, rwidth = 240,
             rbottom = (case styles d SidebarList ''height'' of Some (Px h) \<Rightarrow> h | _ \<Rightarrow> 500)\<rparr>
      else if n = UserIDSection then Inr \<lparr>rtop = 600, rleft = 0, rwidth = 240, rbottom = 652\<rparr>
      else Inr \<lparr>rtop = 0, rleft = 0, rwidth = 0, rbottom = 0\<rparr>)"


text \<open>A host whose layout engine throws.\<close>

definition brokenHost :: host where
  "brokenHost n d = Inl (HostError ''getBoundingClientRect failed'')"

definition unchanged :: "nat \<Rightarrow> dom \<Rightarrow> dom" where
  "unchanged t d = d"



text \<open>The plugin in the moved layout over the sample document, before any pass.\<close>

definition movedSample :: state where
  "movedSample = (constructor sampleDoc Map.empty)\<lparr>isMoved := JBool True\<rparr>"

text \<open>The same with \<open>consoleErrors\<close> switched on, as a developer would set it in the source.\<close>

definition loggingSample :: state where
  "loggingSample = movedSample\<lparr>consoleErrors := True\<rparr>"

text \<open>The plugin as constructed, before \<open>start()\<close>, when \<open>true\<close> is persisted as the mode.\<close>

definition savedMovedSample :: state where
  "savedMovedSample = constructor sampleDoc (Map.empty((pluginId, dataKey) \<mapsto> JBool True))"

text \<open>The plugin after \<open>start()\<close> on the sample document with nothing persisted.\<close>

definition startedSample :: state where
  "startedSample = settle (start sampleHost (constructor sampleDoc Map.empty))"

text \<open>
  A session: the user clicks the button (the layout becomes the moved one and the pair
  0.5/0.5 is saved), the frame runs, then the user presses the handle and moves the
  pointer to y = 150 of the 600 available.
\<close>

definition afterDrag :: state where
  "afterDrag = run sampleHost unchanged startedSample
     [(0, Click), (16, AnimationFrame), (1000, MouseDown 300), (1010, MouseMove 150)]"

text \<open>
  A request for a reapply as the change detector makes it: a batch that reports a change
  of a child list.
\<close>

definition reapplyRequest :: event where
  "reapplyRequest = Mutations [ChildList []]"

text \<open>
  The state as the program reads the mode flag: the flag replaced by its truthiness, and
  without the persisted data.
\<close>

definition withBooleanFlag :: "state \<Rightarrow> state" where
  "withBooleanFlag s = s\<lparr>isMoved := JBool (truthy (isMoved s)), storage := Map.empty\<rparr>"




definition goneWorld :: "nat \<Rightarrow> dom \<Rightarrow> dom" where
  "goneWorld t d = d\<lparr>hasNode := (hasNode d)(MembersWrap := \<not> 1000 \<le> t)\<rparr>"

definition movedStarted :: state where
  "movedStarted = settle (start sampleHost movedSample)"




section \<open>Styling procedures as lists of writes\<close>

text \<open>
  Every styling procedure is a sequence of writes of fixed values to inline style
  properties. The lists below name the writes of \<open>applyMovedLayoutStyles\<close> and of
  \<open>applyOriginalLayoutStyles\<close>; they serve the proofs only, which first show that each
  procedure equals the fold of its list.
\<close>

definition writeStyle :: "node \<times> string \<times> css option \<Rightarrow> dom \<Rightarrow> dom" where
  "writeStyle w d = (case w of (n, p, v) \<Rightarrow> d\<lparr>styles := (styles d)(n := (styles d n)(p := v))\<rparr>)"

definition movedWrites ::
    "node \<Rightarrow> node \<Rightarrow> node option \<Rightarrow> real \<Rightarrow> real \<Rightarrow> rect \<Rightarrow> dom \<Rightarrow> (node \<times> string \<times> css option) list" where
  "movedWrites membersWrap sidebarList membersListContainer
       calculatedSidebarHeight calculatedMembersTotalHeight sidebarListRect d =
     [(membersWrap, ''position'', Some (Lit ''fixed'')),
      (membersWrap, ''width'', Some (Px (rwidth sidebarListRect))),
      (membersWrap, ''height'', Some (Px calculatedMembersTotalHeight)),
      (membersWrap, ''left'', Some (Px (rleft sidebarListRect))),
      (membersWrap, ''top'', Some (Px (rbottom sidebarListRect))),
      (membersWrap, ''transform'', Some (Lit ''translateX(0%)'')),
      (membersWrap, ''z-index'', None),
      (membersWrap, ''min-width'', Some (Lit ''unset'')),
      (membersWrap, ''display'', Some (Lit ''flex'')),
      (membersWrap, ''flex-direction'', Some (Lit ''column'')),
      (sidebarList, ''height'', Some (Px calculatedSidebarHeight)),
      (sidebarList, ''padding-bottom'', Some (Px 0))]
     @ (case query_sidebarNav d sidebarList of
          Some sidebarNav \<Rightarrow> [(sidebarNav, ''padding-bottom'', Some (Px 0))]
        | None \<Rightarrow> [])
     @ (case membersListContainer of
          Some c \<Rightarrow>
            [(c, ''height'', Some (Px (max 0 (calculatedMembersTotalHeight - OUR_UI_HEIGHT_PX)))),
             (c, ''width'', Some (Lit ''100%'')),
             (c, ''overflow-y'', Some (Lit ''auto''))]
        | None \<Rightarrow> [])"


text \<open>The value a property has after a list of writes, given the one it had before.\<close>

fun lastWrite :: "(node \<times> string \<times> css option) list \<Rightarrow> node \<Rightarrow> string \<Rightarrow> css option \<Rightarrow> css option" where
  "lastWrite [] n p dflt = dflt"
| "lastWrite ((m, q, v) # ws) n p dflt = lastWrite ws n p (if m = n \<and> q = p then v else dflt)"


section \<open>Properties of the drag controller\<close>













section \<open>Properties of the styling procedures\<close>

lemma writeStyle_fields:
  "hasNode (writeStyle w d) = hasNode d"
  "elemId (writeStyle w d) = elemId d"
  "parentOf (writeStyle w d) = parentOf d"
  "textContent (writeStyle w d) = textContent d"
  by (simp_all add: writeStyle_def split: prod.splits)

lemma fold_writeStyle_fields:
  "hasNode (fold writeStyle ws d) = hasNode d"
  "elemId (fold writeStyle ws d) = elemId d"
  "parentOf (fold writeStyle ws d) = parentOf d"
  "textContent (fold writeStyle ws d) = textContent d"
  by (induction ws arbitrary: d) (simp_all add: writeStyle_fields)

lemma styles_fold_writeStyle:
  "styles (fold writeStyle ws d) n p = lastWrite ws n p (styles d n p)"
  by (induction ws arbitrary: d) (auto simp: writeStyle_def)

lemma lastWrite_shape:
  "(\<forall>x. lastWrite ws n p x = x) \<or> (\<exists>c. \<forall>x. lastWrite ws n p x = c)"
proof (induction ws)
  case Nil
  then show ?case by simp
next
  case (Cons w ws)
  obtain m q v where w: "w = (m, q, v)" by (cases w)
  show ?case
  proof (cases "m = n \<and> q = p")
    case True
    then have "\<forall>x. lastWrite (w # ws) n p x = lastWrite ws n p v" by (simp add: w)
    then show ?thesis by blast
  next
    case False
    then have "\<forall>x. lastWrite (w # ws) n p x = lastWrite ws n p x" by (auto simp: w)
    then show ?thesis using Cons.IH by auto
  qed
qed

lemma lastWrite_twice: "lastWrite ws n p (lastWrite ws n p x) = lastWrite ws n p x"
  using lastWrite_shape [of ws n p] by metis

lemma fold_writeStyle_twice:
  assumes "\<And>d. ws (fold writeStyle (ws d) d) = ws d"
  shows "fold writeStyle (ws (fold writeStyle (ws d) d)) (fold writeStyle (ws d) d) = fold writeStyle (ws d) d"
proof -
  have "styles (fold writeStyle (ws d) (fold writeStyle (ws d) d)) = styles (fold writeStyle (ws d) d)"
    by (intro ext) (simp add: styles_fold_writeStyle lastWrite_twice)
  then have "fold writeStyle (ws d) (fold writeStyle (ws d) d) = fold writeStyle (ws d) d"
    by (intro dom.equality) (simp_all add: fold_writeStyle_fields)
  then show ?thesis by (simp add: assms)
qed

lemma setProperty_writeStyle: "setProperty n p v d = writeStyle (n, p, Some v) d"
  by (simp add: setProperty_def writeStyle_def)

lemma removeProperty_writeStyle: "removeProperty n p d = writeStyle (n, p, None) d"
  by (simp add: removeProperty_def writeStyle_def)

lemma query_sidebarNav_writeStyle: "query_sidebarNav (writeStyle w d) l = query_sidebarNav d l"
  by (simp add: query_sidebarNav_def writeStyle_fields)

lemma query_sidebarNav_fold: "query_sidebarNav (fold writeStyle ws d) l = query_sidebarNav d l"
  by (simp add: query_sidebarNav_def fold_writeStyle_fields)

lemma applyMovedLayoutStyles_writes:
  "applyMovedLayoutStyles w l c h1 h2 r d = fold writeStyle (movedWrites w l c h1 h2 r d) d"
  by (simp add: applyMovedLayoutStyles_def movedWrites_def Let_def setProperty_writeStyle
        removeProperty_writeStyle query_sidebarNav_writeStyle split: option.splits)

text \<open>
  C7. The MOVED styling procedure is idempotent: a second invocation with the same target
  nodes, heights and rectangle leaves the whole document, and so every styled property of
  the container, the sidebar list and the inner content, as the first invocation left it.
\<close>

theorem moved_styles_idempotent:
  "applyMovedLayoutStyles w l c h1 h2 r (applyMovedLayoutStyles w l c h1 h2 r d)
     = applyMovedLayoutStyles w l c h1 h2 r d"
proof -
  have "\<And>d. movedWrites w l c h1 h2 r (fold writeStyle (movedWrites w l c h1 h2 r d) d)
            = movedWrites w l c h1 h2 r d"
    by (simp add: movedWrites_def query_sidebarNav_fold query_sidebarNav_writeStyle)
  then show ?thesis
    unfolding applyMovedLayoutStyles_writes by (rule fold_writeStyle_twice)
qed


lemma queries_fold_writeStyle:
  "query_membersWrap (fold writeStyle ws d) = query_membersWrap d"
  "query_sidebarList (fold writeStyle ws d) = query_sidebarList d"
  "query_userIDSection (fold writeStyle ws d) = query_userIDSection d"
  "query_members_in (fold writeStyle ws d) m = query_members_in d m"
  "query_bd_members_list_container (fold writeStyle ws d) = query_bd_members_list_container d"
  by (simp_all add: query_membersWrap_def query_sidebarList_def query_userIDSection_def
        query_members_in_def query_bd_members_list_container_def fold_writeStyle_fields)

lemma updateButtonVisualState_styles:
  "n \<noteq> WrapperDiv \<Longrightarrow> n \<noteq> Button \<Longrightarrow>
     styles (doc (updateButtonVisualState b w c m s)) n = styles (doc s) n"
  by (simp add: updateButtonVisualState_def setProperty_def setTextContent_def)



lemma resetSidebarListStyles_fields:
  "wrapperDiv (resetSidebarListStyles s) = wrapperDiv s"
  "subContainerDiv (resetSidebarListStyles s) = subContainerDiv s"
  "button (resetSidebarListStyles s) = button s"
  "isMoved (resetSidebarListStyles s) = isMoved s"
  by (simp_all add: resetSidebarListStyles_def Let_def split: option.splits)

























section \<open>Properties of the reconciliation pass\<close>

lemma addMoveButton_frame:
  "isMoved (addMoveButton s) = isMoved s"
  "sidebarHeightPercentage (addMoveButton s) = sidebarHeightPercentage s"
  "membersHeightPercentage (addMoveButton s) = membersHeightPercentage s"
  "sidebarResets (addMoveButton s) = sidebarResets s"
  "timeouts (addMoveButton s) = timeouts s"
  "now (addMoveButton s) = now s"
  "hasNode (doc (addMoveButton s)) = hasNode (doc s)"
  by (simp_all add: addMoveButton_def ensureResizeHandle_def ensureButtonWrapper_def Let_def
        tagContainer_def setElemId_def setParent_def setCssText_def setTextContent_def
        split: option.splits)

lemma addMoveButton_styles:
  assumes "n \<noteq> ResizeHandle" "n \<noteq> HandleIndicator" "n \<noteq> WrapperDiv" "n \<noteq> SubContainerDiv"
    "n \<noteq> Button"
  shows "styles (doc (addMoveButton s)) n = styles (doc s) n"
  using assms
  by (simp add: addMoveButton_def ensureResizeHandle_def ensureButtonWrapper_def Let_def
        tagContainer_def setElemId_def setParent_def setCssText_def setTextContent_def
        split: option.splits)

lemma dom_ops_styles:
  "styles (setParent m pl d) = styles d"
  "styles (setElemId m i d) = styles d"
  "n \<noteq> m \<Longrightarrow> styles (setProperty m p v d) n = styles d n"
  "n \<noteq> m \<Longrightarrow> styles (removeProperty m p d) n = styles d n"
  "n \<noteq> m \<Longrightarrow> styles (setCssText m ps d) n = styles d n"
  by (simp_all add: setParent_def setElemId_def setProperty_def removeProperty_def setCssText_def)

lemma dom_ops_hasNode:
  "hasNode (setParent m pl d) = hasNode d"
  "hasNode (setElemId m i d) = hasNode d"
  "hasNode (setProperty m p v d) = hasNode d"
  "hasNode (removeProperty m p d) = hasNode d"
  "hasNode (setCssText m ps d) = hasNode d"
  by (simp_all add: setParent_def setElemId_def setProperty_def removeProperty_def setCssText_def)


lemma movedLayoutPass_styles:
  assumes "H l (doc s) = Inr r0" and "H u (doc s) = Inr ru"
    and "0 < rtop ru - rtop r0"
    and "H l (setProperty l ''height''
            (Px ((rtop ru - rtop r0) * sidebarHeightPercentage s)) (doc s)) = Inr r"
    and "n \<noteq> ResizeHandle" "n \<noteq> WrapperDiv" "n \<noteq> Button"
  shows "styles (doc (snd (movedLayoutPass H w l u c s))) n
           = styles (applyMovedLayoutStyles w l c
                ((rtop ru - rtop r0) * sidebarHeightPercentage s)
                ((rtop ru - rtop r0) * membersHeightPercentage s) r
                (setProperty l ''height''
                   (Px ((rtop ru - rtop r0) * sidebarHeightPercentage s)) (doc s))) n"
  using assms
  by (simp add: movedLayoutPass_def Let_def refreshButton_def addResizeListener_def
        placeControlsMoved_def attachToMembersWrap_def updateButtonVisualState_styles
        dom_ops_styles)

lemma movedLayoutPass_fst:
  assumes "H l (doc s) = Inr r0" and "H u (doc s) = Inr ru"
    and "0 < rtop ru - rtop r0"
    and "H l (setProperty l ''height''
            (Px ((rtop ru - rtop r0) * sidebarHeightPercentage s)) (doc s)) = Inr r"
  shows "fst (movedLayoutPass H w l u c s) = None"
  using assms
  by (simp add: movedLayoutPass_def Let_def)

lemma applyMovedLayoutStyles_heights:
  "styles (applyMovedLayoutStyles MembersWrap SidebarList (Some MembersListContainer) h1 h2 r d)
       SidebarList ''height''
     = Some (Px h1)"
  "styles (applyMovedLayoutStyles MembersWrap SidebarList (Some MembersListContainer) h1 h2 r d)
       MembersWrap ''height''
     = Some (Px h2)"
  "styles (applyMovedLayoutStyles MembersWrap SidebarList (Some MembersListContainer) h1 h2 r d)
       MembersListContainer ''height''
     = Some (Px (max 0 (h2 - OUR_UI_HEIGHT_PX)))"
  unfolding applyMovedLayoutStyles_writes styles_fold_writeStyle
  by (simp_all add: movedWrites_def query_sidebarNav_def)

lemma layoutPassBody_moved:
  assumes "truthy (isMoved s)"
    and "hasNode (doc s) MembersWrap" and "hasNode (doc s) SidebarList"
    and "hasNode (doc s) UserIDSection"
  shows "\<exists>s2. layoutPassBody H s
               = movedLayoutPass H MembersWrap SidebarList UserIDSection
                   (query_members_in (doc s) MembersWrap) s2
            \<and> isMoved s2 = isMoved s
            \<and> sidebarHeightPercentage s2 = sidebarHeightPercentage s
            \<and> membersHeightPercentage s2 = membersHeightPercentage s
            \<and> sidebarResets s2 = sidebarResets s
            \<and> timeouts s2 = timeouts s
            \<and> now s2 = now s"
proof -
  define c where "c = query_members_in (doc s) MembersWrap"
  define s2 where "s2 = ensureControls (tagContainer c s)"
  have f2: "isMoved s2 = isMoved s" "sidebarHeightPercentage s2 = sidebarHeightPercentage s"
    "membersHeightPercentage s2 = membersHeightPercentage s" "sidebarResets s2 = sidebarResets s"
    "timeouts s2 = timeouts s" "now s2 = now s"
    by (simp_all add: s2_def ensureControls_def tagContainer_def addMoveButton_frame
          split: option.splits)
  have "layoutPassBody H s
          = layoutForMode H MembersWrap SidebarList UserIDSection c s2"
    using assms(2-4)
    by (simp add: layoutPassBody_def Let_def query_membersWrap_def query_sidebarList_def
          query_userIDSection_def c_def s2_def)
  then have "layoutPassBody H s
          = movedLayoutPass H MembersWrap SidebarList UserIDSection c s2"
    using assms(1) f2(1) by (simp add: layoutForMode_def)
  then show ?thesis using f2 unfolding c_def by blast
qed

theorem geometry_resolution:
  assumes moved: "truthy (isMoved s)"
    and nodes: "hasNode (doc s) MembersWrap" "hasNode (doc s) SidebarList"
      "hasNode (doc s) UserIDSection" "hasNode (doc s) MembersListContainer"
    and sidebarTop: "\<And>d. \<exists>r. H SidebarList d = Inr r \<and> rtop r = t0"
    and sectionTop: "\<And>d. \<exists>r. H UserIDSection d = Inr r \<and> rtop r = t0 + availableHeight"
    and positive: "0 < availableHeight"
  shows "styles (doc (snd (applyCurrentLayoutState H s))) SidebarList ''height''
           = Some (Px (availableHeight * sidebarHeightPercentage s))
       \<and> styles (doc (snd (applyCurrentLayoutState H s))) MembersWrap ''height''
           = Some (Px (availableHeight * membersHeightPercentage s))
       \<and> styles (doc (snd (applyCurrentLayoutState H s))) MembersListContainer ''height''
           = Some (Px (max 0 (availableHeight * membersHeightPercentage s - 24)))"
proof -
  have c: "query_members_in (doc (enterPass s)) MembersWrap = Some MembersListContainer"
    using nodes by (simp add: query_members_in_def enterPass_def)
  obtain s2 where body: "layoutPassBody H (enterPass s)
        = movedLayoutPass H MembersWrap SidebarList UserIDSection (Some MembersListContainer) s2"
    and p: "sidebarHeightPercentage s2 = sidebarHeightPercentage s"
    and q: "membersHeightPercentage s2 = membersHeightPercentage s"
    using layoutPassBody_moved [of "enterPass s" H] moved nodes c
    by (auto simp: enterPass_def)
  obtain r0 where r0: "H SidebarList (doc s2) = Inr r0" "rtop r0 = t0"
    using sidebarTop by blast
  obtain ru where ru: "H UserIDSection (doc s2) = Inr ru" "rtop ru = t0 + availableHeight"
    using sectionTop by blast
  have av: "rtop ru - rtop r0 = availableHeight" using r0 ru by simp
  obtain r where r: "H SidebarList (setProperty SidebarList ''height''
            (Px ((rtop ru - rtop r0) * sidebarHeightPercentage s2)) (doc s2)) = Inr r"
    using sidebarTop by blast
  have pos: "0 < rtop ru - rtop r0" using av positive by simp
  have none: "fst (movedLayoutPass H MembersWrap SidebarList UserIDSection (Some MembersListContainer) s2) = None"
    using r0(1) ru(1) pos r by (rule movedLayoutPass_fst)
  have res: "snd (applyCurrentLayoutState H s)
      = snd (movedLayoutPass H MembersWrap SidebarList UserIDSection (Some MembersListContainer) s2)"
  proof (cases "movedLayoutPass H MembersWrap SidebarList UserIDSection (Some MembersListContainer) s2")
    case (Pair e s')
    then have "e = None" using none by simp
    then show ?thesis by (simp add: applyCurrentLayoutState_def body Pair)
  qed
  have st: "\<And>n. n \<noteq> ResizeHandle \<Longrightarrow> n \<noteq> WrapperDiv \<Longrightarrow> n \<noteq> Button \<Longrightarrow>
      styles (doc (snd (applyCurrentLayoutState H s))) n
       = styles (applyMovedLayoutStyles MembersWrap SidebarList (Some MembersListContainer)
                (availableHeight * sidebarHeightPercentage s)
                (availableHeight * membersHeightPercentage s) r
                (setProperty SidebarList ''height''
                   (Px ((rtop ru - rtop r0) * sidebarHeightPercentage s2)) (doc s2))) n"
    unfolding res using movedLayoutPass_styles [OF r0(1) ru(1) pos r] by (simp add: av p q)
  show ?thesis
    by (simp add: st applyMovedLayoutStyles_heights OUR_UI_HEIGHT_PX_def RESIZE_HANDLE_HEIGHT_def
          BUTTON_WRAPPER_HEIGHT_def)
qed

text \<open>
  The scenario of C4 on the sample document: available height 600, pair 0.5/0.5.
\<close>

theorem geometry_resolution_witness:
  "styles (doc (snd (applyCurrentLayoutState sampleHost movedSample))) SidebarList ''height''
     = Some (Px 300)
   \<and> styles (doc (snd (applyCurrentLayoutState sampleHost movedSample))) MembersWrap ''height''
     = Some (Px 300)
   \<and> styles (doc (snd (applyCurrentLayoutState sampleHost movedSample))) MembersListContainer ''height''
     = Some (Px 276)"
proof -
  have m: "truthy (isMoved movedSample)" by (simp add: movedSample_def constructor_def)
  have d: "doc movedSample = sampleDoc" by (simp add: movedSample_def constructor_def)
  have n: "hasNode (doc movedSample) MembersWrap" "hasNode (doc movedSample) SidebarList"
      "hasNode (doc movedSample) UserIDSection" "hasNode (doc movedSample) MembersListContainer"
    by (simp_all add: d sampleDoc_def)
  have a: "\<And>d. \<exists>r. sampleHost SidebarList d = Inr r \<and> rtop r = 0"
    by (simp add: sampleHost_def)
  have b: "\<And>d. \<exists>r. sampleHost UserIDSection d = Inr r \<and> rtop r = 0 + 600"
    by (simp add: sampleHost_def)
  have pq: "sidebarHeightPercentage movedSample = 0.5" "membersHeightPercentage movedSample = 0.5"
    by (simp_all add: movedSample_def constructor_def)
  show ?thesis
    using geometry_resolution [of movedSample sampleHost 0 600, OF m n a b] by (simp add: pq)
qed

text \<open>
  C4 as stated fails: the reservation of the program is not 16, and in the scenario the
  height written to the inner content is not 284.
\<close>

theorem content_height_counterexample:
  "OUR_UI_HEIGHT_PX \<noteq> 16
   \<and> styles (doc (snd (applyCurrentLayoutState sampleHost movedSample))) MembersListContainer ''height''
       \<noteq> Some (Px 284)"
  by code_simp


section \<open>Persistence of the pair, the scheduler, start and stop, exceptions\<close>

text \<open>
  C1. In the session \<open>afterDrag\<close> the drag produces the pair 0.25/0.75, but \<open>onMouseMove\<close>
  saves it under \<open>dataKey\<close>, the key of the mode flag: what \<open>heightsDataKey\<close> holds is still
  the pair 0.5/0.5 that the click saved, and the key of the mode flag now holds an object.
\<close>

theorem drag_saves_pair_under_mode_key:
  "sidebarHeightPercentage afterDrag = 0.25 \<and> membersHeightPercentage afterDrag = 0.75
   \<and> loadData (storage afterDrag) pluginId heightsDataKey
       = JObj [(''sidebar'', 0.5), (''members'', 0.5)]
   \<and> loadData (storage afterDrag) pluginId dataKey
       = JObj [(''sidebar'', 0.25), (''members'', 0.75)]"
  by code_simp

lemma queueLayoutReapply_while_throttling:
  assumes "isThrottling s" and "animationFrameId s = Some i"
  shows "queueLayoutReapply s
           = (cancelAnimationFrame i s)\<lparr>animationFrameId := None, pendingThrottleCall := True\<rparr>"
  using assms by (simp add: queueLayoutReapply_def cancelAnimationFrame_def)

text \<open>
  C2. One request followed by the frame runs the pass once. A second request that
  arrives before the frame (at 5 ms, the frame coming at 16 ms) cancels the frame the first
  one scheduled: no pass runs at the frame, and the only execution is the trailing one,
  after the cool-down has fired at 100 ms.
\<close>

theorem second_request_cancels_frame:
  "passCount (run sampleHost unchanged startedSample
       [(0, reapplyRequest), (16, AnimationFrame)]) = passCount startedSample + 1
   \<and> frames (run sampleHost unchanged startedSample [(0, reapplyRequest)]) = [3]
   \<and> frames (run sampleHost unchanged startedSample [(0, reapplyRequest), (5, reapplyRequest)]) = []
   \<and> passCount (run sampleHost unchanged startedSample
       [(0, reapplyRequest), (5, reapplyRequest), (16, AnimationFrame)]) = passCount startedSample
   \<and> passCount (run sampleHost unchanged startedSample
       [(0, reapplyRequest), (5, reapplyRequest), (16, AnimationFrame),
        (100, TimeoutFires 4), (116, AnimationFrame)]) = passCount startedSample + 1"
  by code_simp

text \<open>
  C3. After one \<open>start()\<close> one audit interval runs and \<open>stop()\<close> clears it. After a second
  \<open>start()\<close> two intervals run; \<open>failsafeIntervalId\<close> remembers only the second, so \<open>stop()\<close>
  leaves the first one running.
\<close>

theorem second_start_leaks_interval:
  "intervals startedSample = [2]
   \<and> intervals (stop startedSample) = []
   \<and> intervals (settle (start sampleHost startedSample)) = [2, 4]
   \<and> failsafeIntervalId (settle (start sampleHost startedSample)) = Some 4
   \<and> intervals (stop (settle (start sampleHost startedSample))) = [2]
   \<and> failsafeIntervalId (stop (settle (start sampleHost startedSample))) = None"
  by code_simp

lemma steps_console:
  "errorConsole (placeControlsMoved w s) = errorConsole s"
  "errorConsole (addResizeListener s) = errorConsole s"
  "errorConsole (removeResizeListener s) = errorConsole s"
  "errorConsole (refreshButton s) = errorConsole s"
  "errorConsole (hideResizeHandle s) = errorConsole s"
  "errorConsole (placeWrapperOriginal c s) = errorConsole s"
  "errorConsole (tagContainer c s) = errorConsole s"
  "errorConsole (enterPass s) = errorConsole s"
  "errorConsole (removeProperties f ps s) = errorConsole s"
  "errorConsole (resetSidebarListStyles s) = errorConsole s"
  "errorConsole (resetButtonState s) = errorConsole s"
  "errorConsole (ensureResizeHandle s) = errorConsole s"
  "errorConsole (ensureButtonWrapper s) = errorConsole s"
  "consoleErrors (placeControlsMoved w s) = consoleErrors s"
  "consoleErrors (addResizeListener s) = consoleErrors s"
  "consoleErrors (removeResizeListener s) = consoleErrors s"
  "consoleErrors (refreshButton s) = consoleErrors s"
  "consoleErrors (hideResizeHandle s) = consoleErrors s"
  "consoleErrors (placeWrapperOriginal c s) = consoleErrors s"
  "consoleErrors (tagContainer c s) = consoleErrors s"
  "consoleErrors (enterPass s) = consoleErrors s"
  "consoleErrors (removeProperties f ps s) = consoleErrors s"
  "consoleErrors (resetSidebarListStyles s) = consoleErrors s"
  "consoleErrors (resetButtonState s) = consoleErrors s"
  "consoleErrors (ensureResizeHandle s) = consoleErrors s"
  "consoleErrors (ensureButtonWrapper s) = consoleErrors s"
  "masterLogs (placeControlsMoved w s) = masterLogs s"
  "masterLogs (addResizeListener s) = masterLogs s"
  "masterLogs (removeResizeListener s) = masterLogs s"
  "masterLogs (refreshButton s) = masterLogs s"
  "masterLogs (hideResizeHandle s) = masterLogs s"
  "masterLogs (placeWrapperOriginal c s) = masterLogs s"
  "masterLogs (tagContainer c s) = masterLogs s"
  "masterLogs (enterPass s) = masterLogs s"
  "masterLogs (removeProperties f ps s) = masterLogs s"
  "masterLogs (resetSidebarListStyles s) = masterLogs s"
  "masterLogs (resetButtonState s) = masterLogs s"
  "masterLogs (ensureResizeHandle s) = masterLogs s"
  "masterLogs (ensureButtonWrapper s) = masterLogs s"
  by (simp_all add: placeControlsMoved_def addResizeListener_def removeResizeListener_def
        refreshButton_def hideResizeHandle_def placeWrapperOriginal_def tagContainer_def
        enterPass_def removeProperties_def resetSidebarListStyles_def
        resetButtonState_def ensureResizeHandle_def ensureButtonWrapper_def Let_def
        updateButtonVisualState_def split: option.splits)

lemma ensureControls_console:
  "errorConsole (ensureControls s) = errorConsole s"
  "consoleErrors (ensureControls s) = consoleErrors s"
  "masterLogs (ensureControls s) = masterLogs s"
  by (cases "query_membersWrap (doc s)"; simp add: ensureControls_def addMoveButton_def steps_console)+

lemma applyOriginalLayoutStyles_console:
  "errorConsole (applyOriginalLayoutStyles s) = errorConsole s"
  "consoleErrors (applyOriginalLayoutStyles s) = consoleErrors s"
  "masterLogs (applyOriginalLayoutStyles s) = masterLogs s"
  by (cases "query_sidebarList (doc s)"; simp add: applyOriginalLayoutStyles_def Let_def steps_console)+

lemma layoutForMode_console:
  "errorConsole (snd (layoutForMode H w l u c s)) = errorConsole s"
  "consoleErrors (snd (layoutForMode H w l u c s)) = consoleErrors s"
  "masterLogs (snd (layoutForMode H w l u c s)) = masterLogs s"
  by (simp_all add: layoutForMode_def movedLayoutPass_def originalLayoutPass_def Let_def
        steps_console applyOriginalLayoutStyles_console split: sum.splits)

lemma layoutPassBody_console:
  "errorConsole (snd (layoutPassBody H s)) = errorConsole s"
  "consoleErrors (snd (layoutPassBody H s)) = consoleErrors s"
  "masterLogs (snd (layoutPassBody H s)) = masterLogs s"
  by (cases "query_membersWrap (doc s)"; cases "query_sidebarList (doc s)";
      cases "query_userIDSection (doc s)";
      simp add: layoutPassBody_def Let_def layoutForMode_console steps_console
        ensureControls_console)+

text \<open>
  C9. Whenever the body of the reconciliation pass throws an exception \<open>e\<close>,
  \<open>applyCurrentLayoutState\<close> throws the same \<open>e\<close> to its caller, and the frame callback, a
  caller, passes it on. Before it throws, the \<open>catch\<close> block hands the message to \<open>_error\<close>,
  and there the diagnostic is captured only under a condition: one line is printed when
  \<open>consoleErrors\<close> or \<open>masterLogs\<close> is on, and nothing is printed when both are off. Apart
  from that line the state is the one the body left behind.
\<close>

theorem pass_rethrows:
  assumes "fst (layoutPassBody H (enterPass s)) = Some e"
  shows "fst (applyCurrentLayoutState H s) = Some e
       \<and> fst (animationFrameCallback H s) = Some e
       \<and> errorConsole (snd (applyCurrentLayoutState H s))
           = (if consoleErrors s \<or> masterLogs s
              then errorConsole s @ [''CRITICAL ERROR in applyCurrentLayoutState: '' @ message e]
              else errorConsole s)
       \<and> (snd (applyCurrentLayoutState H s))\<lparr>errorConsole := []\<rparr>
           = (snd (layoutPassBody H (enterPass s)))\<lparr>errorConsole := []\<rparr>"
proof (cases "layoutPassBody H (enterPass s)")
  case (Pair x s')
  then have x: "x = Some e" using assms by simp
  have c: "errorConsole s' = errorConsole s" "consoleErrors s' = consoleErrors s"
    "masterLogs s' = masterLogs s"
    using layoutPassBody_console [of H "enterPass s"] Pair by (simp_all add: steps_console)
  show ?thesis
    by (simp add: applyCurrentLayoutState_def animationFrameCallback_def Pair x error_log_def c)
qed

text \<open>With \<open>consoleErrors\<close> switched on, the line is printed before the exception goes on.\<close>

theorem pass_rethrows_witness:
  "fst (layoutPassBody brokenHost (enterPass loggingSample))
     = Some (HostError ''getBoundingClientRect failed'')
   \<and> fst (applyCurrentLayoutState brokenHost loggingSample)
     = Some (HostError ''getBoundingClientRect failed'')
   \<and> fst (animationFrameCallback brokenHost loggingSample)
     = Some (HostError ''getBoundingClientRect failed'')
   \<and> errorConsole (snd (applyCurrentLayoutState brokenHost loggingSample))
     = [''CRITICAL ERROR in applyCurrentLayoutState: getBoundingClientRect failed'']"
proof -
  have h: "fst (layoutPassBody brokenHost (enterPass loggingSample))
     = Some (HostError ''getBoundingClientRect failed'')"
    by code_simp
  have c: "consoleErrors loggingSample" "errorConsole loggingSample = []"
    by (simp_all add: loggingSample_def movedSample_def constructor_def)
  show ?thesis using pass_rethrows [OF h] h c by simp
qed

text \<open>
  Against the claim as it was stated: the constructor switches \<open>consoleErrors\<close> and
  \<open>masterLogs\<close> off and nothing in the program switches them on. So when \<open>start()\<close> finds
  the moved layout persisted and the layout engine throws in the first pass, the
  exception reaches the caller of \<open>start()\<close> and no diagnostic has been captured.
\<close>

theorem default_switches_capture_nothing:
  "\<not> consoleErrors savedMovedSample \<and> \<not> masterLogs savedMovedSample
   \<and> fst (start brokenHost savedMovedSample) = Some (HostError ''getBoundingClientRect failed'')
   \<and> passCount (snd (start brokenHost savedMovedSample)) = 1
   \<and> errorConsole (snd (start brokenHost savedMovedSample)) = []"
  by code_simp


section \<open>The persisted mode flag\<close>























lemma wbf_setInterval:
  "setInterval (withBooleanFlag s) = apsnd withBooleanFlag (setInterval s)"
  by (simp add: setInterval_def withBooleanFlag_def)

lemma wbf_failsafe:
  "withBooleanFlag (s\<lparr>failsafeIntervalId := x\<rparr>) = (withBooleanFlag s)\<lparr>failsafeIntervalId := x\<rparr>"
  by (simp add: withBooleanFlag_def)



















section \<open>The absence debounce\<close>



















































text \<open>
  For contrast, an absence that lasts: the time-out fires at 1150 ms, the container is
  still absent, and the height of the sidebar list is removed.
\<close>

lemma long_absence_releases:
  "absenceReleases (run sampleHost goneWorld movedStarted
        [(1000, Mutations [ChildList []]), (1016, AnimationFrame), (1150, TimeoutFires 5)])
     = absenceReleases movedStarted + 1
   \<and> styles (doc movedStarted) SidebarList ''height'' = Some (Px 300)
   \<and> styles (doc (run sampleHost goneWorld movedStarted
        [(1000, Mutations [ChildList []]), (1016, AnimationFrame), (1150, TimeoutFires 5)]))
        SidebarList ''height'' = None"
  by code_simp

end
